theory Spec2Isabelle
  imports Main "HOL-Library.Log_Nat"
begin

section \<open>JavaScript \<open>Map\<close>: a store that remembers insertion order\<close>

text \<open>
  Both scripts keep their caches in a JavaScript \<open>Map\<close>. A \<open>Map\<close> iterates its keys in
  insertion order; \<open>set\<close> on a key that is already there replaces the value and leaves the
  key where it is; \<open>set\<close> on a new key appends it; \<open>delete\<close> removes the key (and does
  nothing for a key that is not there). The model is an association list, oldest
  insertion first.
\<close>

type_synonym ('k, 'v) js_map = "('k \<times> 'v) list"

definition map_has :: "'k \<Rightarrow> ('k, 'v) js_map \<Rightarrow> bool" where
  "map_has k m = (map_of m k \<noteq> None)"

definition map_delete :: "'k \<Rightarrow> ('k, 'v) js_map \<Rightarrow> ('k, 'v) js_map" where
  "map_delete k m = filter (\<lambda>p. fst p \<noteq> k) m"

fun map_set :: "'k \<Rightarrow> 'v \<Rightarrow> ('k, 'v) js_map \<Rightarrow> ('k, 'v) js_map" where
  "map_set k v [] = [(k, v)]"
| "map_set k v (p # ps) = (if fst p = k then (k, v) # ps else p # map_set k v ps)"

text \<open>\<open>m.keys().next().value\<close>: the oldest key, \<open>undefined\<close> on an empty map.\<close>

definition map_first_key :: "('k, 'v) js_map \<Rightarrow> 'k option" where
  "map_first_key m = (case m of [] \<Rightarrow> None | p # _ \<Rightarrow> Some (fst p))"

text \<open>\<open>m.delete(m.keys().next().value)\<close>; deleting \<open>undefined\<close> removes nothing.\<close>

definition map_delete_first :: "('k, 'v) js_map \<Rightarrow> ('k, 'v) js_map" where
  "map_delete_first m = (case map_first_key m of None \<Rightarrow> m | Some k \<Rightarrow> map_delete k m)"

section \<open>The content script's \<open>PerformanceCache\<close>\<close>

text \<open>
  \<^verbatim>\<open>class PerformanceCache { constructor(maxSize = 100) ... get(key) ... set(key, value) ... clear() }\<close>
  of the content script: a bounded map with hit and miss counters and no clock.
  \<open>get\<close> answers \<open>null\<close> on a miss, here \<open>None\<close>.
\<close>

record ('k, 'v) PerformanceCache =
  cache :: "('k, 'v) js_map"
  maxSize :: nat
  hitCount :: nat
  missCount :: nat

definition new_PerformanceCache :: "nat \<Rightarrow> ('k, 'v) PerformanceCache" where
  "new_PerformanceCache n = \<lparr>cache = [], maxSize = n, hitCount = 0, missCount = 0\<rparr>"

definition cache_get ::
  "'k \<Rightarrow> ('k, 'v) PerformanceCache \<Rightarrow> 'v option \<times> ('k, 'v) PerformanceCache" where
  "cache_get key c =
     (case map_of (cache c) key of
        Some item \<Rightarrow>
          (Some item,
           c\<lparr>hitCount := hitCount c + 1,
             cache := map_set key item (map_delete key (cache c))\<rparr>)
      | None \<Rightarrow> (None, c\<lparr>missCount := missCount c + 1\<rparr>))"

definition cache_set ::
  "'k \<Rightarrow> 'v \<Rightarrow> ('k, 'v) PerformanceCache \<Rightarrow> ('k, 'v) PerformanceCache" where
  "cache_set key v c =
     (let m = (if map_has key (cache c) then map_delete key (cache c)
               else if maxSize c \<le> length (cache c) then map_delete_first (cache c)
               else cache c)
      in c\<lparr>cache := map_set key v m\<rparr>)"

definition cache_clear :: "('k, 'v) PerformanceCache \<Rightarrow> ('k, 'v) PerformanceCache" where
  "cache_clear c = c\<lparr>cache := [], hitCount := 0, missCount := 0\<rparr>"

section \<open>The background script's \<open>PerformanceCache\<close>, with a time to live\<close>

text \<open>
  \<^verbatim>\<open>class PerformanceCache { constructor(maxSize = 100, ttlMs = PERF_CONFIG.CACHE_DURATION) ... }\<close>
  of the background script. Each stored item carries its data, its expiry time and its
  creation time; \<open>Date.now()\<close> is the argument \<open>now\<close> (milliseconds) of every operation
  that reads the clock (\<open>set\<close> reads it twice in one call, for \<open>expiry\<close> and for \<open>created\<close>:
  one time stands for both).
\<close>

record 'v cache_item =
  data :: 'v
  expiry :: nat
  created :: nat

record ('k, 'v) TTLCache = "('k, 'v cache_item) PerformanceCache" +
  ttl :: nat
  requestCount :: nat

definition new_TTLCache :: "nat \<Rightarrow> nat \<Rightarrow> ('k, 'v) TTLCache" where
  "new_TTLCache n t =
     \<lparr>cache = [], maxSize = n, hitCount = 0, missCount = 0, ttl = t, requestCount = 0\<rparr>"

definition ttl_cache_get ::
  "'k \<Rightarrow> nat \<Rightarrow> ('k, 'v) TTLCache \<Rightarrow> 'v option \<times> ('k, 'v) TTLCache" where
  "ttl_cache_get key now c =
     (case map_of (cache c) key of
        Some item \<Rightarrow>
          if now < expiry item then
            (Some (data item),
             c\<lparr>hitCount := hitCount c + 1,
               cache := map_set key item (map_delete key (cache c))\<rparr>)
          else
            (None, c\<lparr>cache := map_delete key (cache c), missCount := missCount c + 1\<rparr>)
      | None \<Rightarrow> (None, c\<lparr>missCount := missCount c + 1\<rparr>))"

definition ttl_cache_set ::
  "'k \<Rightarrow> 'v \<Rightarrow> nat \<Rightarrow> ('k, 'v) TTLCache \<Rightarrow> ('k, 'v) TTLCache" where
  "ttl_cache_set key d now c =
     (let m = (if maxSize c \<le> length (cache c) \<and> \<not> map_has key (cache c)
               then map_delete_first (cache c) else cache c)
      in c\<lparr>cache := map_set key \<lparr>data = d, expiry = now + ttl c, created = now\<rparr> m\<rparr>)"

definition ttl_cache_clear :: "('k, 'v) TTLCache \<Rightarrow> ('k, 'v) TTLCache" where
  "ttl_cache_clear c = c\<lparr>cache := [], hitCount := 0, missCount := 0\<rparr>"

text \<open>
  \<open>cleanup\<close> walks the entries and deletes, by key, each one whose expiry has come; it
  returns how many it deleted.
\<close>

definition ttl_cache_cleanup :: "nat \<Rightarrow> ('k, 'v) TTLCache \<Rightarrow> nat \<times> ('k, 'v) TTLCache" where
  "ttl_cache_cleanup now c =
     (length (filter (\<lambda>p. expiry (snd p) \<le> now) (cache c)),
      c\<lparr>cache := fold (\<lambda>p m. if expiry (snd p) \<le> now then map_delete (fst p) m else m)
                       (cache c) (cache c)\<rparr>)"

text \<open>A history of calls on one background cache, each with the clock it saw.\<close>

datatype ('k, 'v) ttl_op =
  Get 'k nat
| Set 'k 'v nat
| Cleanup nat
| Clear

fun ttl_step :: "('k, 'v) ttl_op \<Rightarrow> ('k, 'v) TTLCache \<Rightarrow> ('k, 'v) TTLCache" where
  "ttl_step (Get k now) c = snd (ttl_cache_get k now c)"
| "ttl_step (Set k v now) c = ttl_cache_set k v now c"
| "ttl_step (Cleanup now) c = snd (ttl_cache_cleanup now c)"
| "ttl_step Clear c = ttl_cache_clear c"

definition ttl_run :: "('k, 'v) ttl_op list \<Rightarrow> ('k, 'v) TTLCache \<Rightarrow> ('k, 'v) TTLCache" where
  "ttl_run ops c = fold ttl_step ops c"

text \<open>
  The same for the content script's cache. Each call is recorded with the time at which
  it is made; no operation of this cache reads the clock, so the time is not passed on.
\<close>

datatype ('k, 'v) cache_op =
  CGet 'k nat
| CSet 'k 'v nat
| CClear nat

fun cache_step ::
  "('k, 'v) cache_op \<Rightarrow> ('k, 'v) PerformanceCache \<Rightarrow> ('k, 'v) PerformanceCache" where
  "cache_step (CGet k now) c = snd (cache_get k c)"
| "cache_step (CSet k v now) c = cache_set k v c"
| "cache_step (CClear now) c = cache_clear c"

definition cache_run ::
  "('k, 'v) cache_op list \<Rightarrow> ('k, 'v) PerformanceCache \<Rightarrow> ('k, 'v) PerformanceCache" where
  "cache_run ops c = fold cache_step ops c"


fun csets_key :: "'k \<Rightarrow> ('k, 'v) cache_op \<Rightarrow> bool" where
  "csets_key k (CSet k' v now) = (k' = k)"
| "csets_key k (CGet k' now) = False"
| "csets_key k (CClear now) = False"



section \<open>Strings and numbers of the scripts\<close>

text \<open>
  A JavaScript string is a sequence of UTF-16 code units; \<open>js\<close> turns an ASCII literal
  into one.
\<close>

type_synonym jstring = "nat list"

definition js :: "string \<Rightarrow> jstring" where
  "js s = map of_char s"

text \<open>
  Falsy strings: \<open>undefined\<close> or \<open>null\<close> (here \<open>None\<close>) and the empty string.
\<close>

definition truthy :: "jstring option \<Rightarrow> bool" where
  "truthy s = (case s of None \<Rightarrow> False | Some t \<Rightarrow> t \<noteq> [])"

text \<open>
  Prices and identifiers are the integers the two platforms send; on integers below
  \<open>2 ^ 53\<close> the subtraction and the comparisons of JavaScript numbers are exact. The
  quotient and the product in the percentage are not: each is rounded to the nearest
  double (53 significant bits, ties to the even significand). \<open>fl\<close> is that rounding on
  the positive rationals of the normal range, which is where the percentage is computed;
  \<open>Math.round\<close> rounds half up.
\<close>

definition pow2 :: "int \<Rightarrow> rat" where
  "pow2 e = (if 0 \<le> e then 2 ^ nat e else 1 / 2 ^ nat (- e))"

definition round_half_even :: "rat \<Rightarrow> int" where
  "round_half_even x =
     (let f = \<lfloor>x\<rfloor>; r = x - of_int f
      in if r < 1 / 2 then f else if 1 / 2 < r then f + 1 else if even f then f else f + 1)"

text \<open>The exponent \<open>e\<close> with \<open>2 ^ e \<le> x < 2 ^ (e + 1)\<close>, for \<open>x > 0\<close>.\<close>

definition binade :: "rat \<Rightarrow> int" where
  "binade x =
     (let (n, d) = quotient_of x; e = bitlen n - bitlen d
      in if pow2 e \<le> x then e else e - 1)"

definition fl :: "rat \<Rightarrow> rat" where
  "fl x = (if x \<le> 0 then 0
           else let ulp = pow2 (binade x - 52) in of_int (round_half_even (x / ulp)) * ulp)"

definition Math_round :: "rat \<Rightarrow> int" where
  "Math_round x = \<lfloor>x + 1 / 2\<rfloor>"

section \<open>The comparison engine: \<open>processAndCompare\<close>\<close>

text \<open>
  A product as \<open>fetchSnappfoodData\<close> and \<open>fetchTapsifoodData\<close> build it (the discount
  fields, which no later code reads, are left out). A collection of products is a
  JavaScript object keyed by the product's identifier, here an association list;
  \<open>Object.keys\<close> is the list of its keys, \<open>obj[k]\<close> is \<open>map_of obj k\<close> and the assignment
  \<open>obj[k] = v\<close> is \<open>map_set k v obj\<close>. The field \<open>id\<close> of a product is \<open>pid\<close> here.
\<close>

record product =
  pid :: int
  name :: jstring
  price :: int
  originalPrice :: int

record comparison =
  baseProduct :: product
  counterpartProduct :: product
  priceDiff :: int
  percentDiff :: int
  isCheaper :: bool
  isMoreExpensive :: bool
  isSamePrice :: bool

type_synonym 'v js_object = "(int \<times> 'v) list"

text \<open>
  \<^verbatim>\<open>Math.round((Math.abs(priceDiff) / baseProduct.price) * 100)\<close>
\<close>

definition percentDiffOf :: "int \<Rightarrow> int \<Rightarrow> int" where
  "percentDiffOf d basePrice =
     Math_round (fl (fl (of_int \<bar>d\<bar> / of_int basePrice) * 100))"

text \<open>
  The body of the inner loop, for one \<open>baseId\<close>. \<open>parseInt(baseId)\<close> is the identity on
  the integer keys; \<open>if (counterpartId)\<close> is false for a missing mapping and for the
  identifier 0; \<open>if (counterpartProducts[counterpartId])\<close> is true when the product is
  there.
\<close>

definition comparisonRecord :: "product \<Rightarrow> product \<Rightarrow> comparison" where
  "comparisonRecord bp cp =
     \<lparr>baseProduct = bp, counterpartProduct = cp,
      priceDiff = price bp - price cp,
      percentDiff = percentDiffOf (price bp - price cp) (price bp),
      isCheaper = (0 < price bp - price cp),
      isMoreExpensive = (price bp - price cp < 0),
      isSamePrice = (price bp - price cp = 0)\<rparr>"

definition compareOne ::
  "product js_object \<Rightarrow> product js_object \<Rightarrow> int js_object \<Rightarrow> int
   \<Rightarrow> comparison js_object \<Rightarrow> comparison js_object" where
  "compareOne baseProducts counterpartProducts itemMappings baseId comparisonResults =
     (case map_of itemMappings baseId of
        None \<Rightarrow> comparisonResults
      | Some counterpartId \<Rightarrow>
          if counterpartId = 0 then comparisonResults
          else (case map_of counterpartProducts counterpartId of
            None \<Rightarrow> comparisonResults
          | Some cp \<Rightarrow>
              (case map_of baseProducts baseId of
                 None \<Rightarrow> comparisonResults
               | Some bp \<Rightarrow>
                   if 0 < price bp
                   then map_set baseId (comparisonRecord bp cp) comparisonResults
                   else comparisonResults)))"

text \<open>
  \<^verbatim>\<open>for (let i = 0; i < productIds.length; i += chunkSize) { const chunk = productIds.slice(i, i + chunkSize); for (const baseId of chunk) ... }\<close>
  with \<open>chunkSize = 50\<close>.
\<close>

definition chunkSize :: nat where
  "chunkSize = 50"

function compareChunks ::
  "product js_object \<Rightarrow> product js_object \<Rightarrow> int js_object \<Rightarrow> int list \<Rightarrow> nat
   \<Rightarrow> comparison js_object \<Rightarrow> comparison js_object" where
  "compareChunks bs cs ms productIds i res =
     (if i < length productIds then
        compareChunks bs cs ms productIds (i + chunkSize)
          (fold (compareOne bs cs ms) (take chunkSize (drop i productIds)) res)
      else res)"
  by pat_completeness auto
termination
  by (relation "measure (\<lambda>(bs, cs, ms, productIds, i, res). length productIds - i)")
     (auto simp: chunkSize_def)

definition processAndCompare ::
  "product js_object \<Rightarrow> product js_object \<Rightarrow> jstring \<Rightarrow> int js_object
   \<Rightarrow> comparison js_object" where
  "processAndCompare sfProducts tfProducts sourcePlatform itemMappings =
     (let baseProducts = (if sourcePlatform = js ''snappfood'' then sfProducts else tfProducts);
          counterpartProducts =
            (if sourcePlatform = js ''snappfood'' then tfProducts else sfProducts)
      in compareChunks baseProducts counterpartProducts itemMappings
           (map fst baseProducts) 0 [])"

section \<open>The \<open>fetchPrices\<close> request of the background script\<close>

text \<open>
  The request names a source platform and the vendor code on it. The handler asks the
  mapping server for the vendor (\<open>getVendorData\<close>), then both platforms for their
  products (\<open>fetchSnappfoodData\<close>, \<open>fetchTapsifoodData\<close>, which answer \<open>null\<close> on any
  failure and never throw), and answers once. What the network answers is a parameter
  of the model: a record of the three functions.
\<close>

record vendor_mapping =
  sf_code :: "jstring option"
  sf_name :: "jstring option"
  tf_code :: "jstring option"
  tf_name :: "jstring option"

record request =
  sfVendorCode :: "jstring option"
  tfVendorCode :: "jstring option"
  sourcePlatform :: "jstring option"

record api_data =
  vendor_info :: "vendor_mapping option"
  item_mappings :: "int js_object option"

record api_result =
  success :: bool
  api_data :: "api_data option"
  api_error :: "jstring option"
  isConnectionError :: "bool option"

record network =
  getVendorData :: "jstring \<Rightarrow> jstring \<Rightarrow> api_result"
  fetchSnappfoodData :: "jstring option \<Rightarrow> product js_object option"
  fetchTapsifoodData :: "jstring option \<Rightarrow> product js_object option"

text \<open>
  The answers of the handler. A failure carries an error message and never a \<open>data\<close>
  field; \<open>ProductFetchFailed\<close> records which of the two fetches were \<open>null\<close>, as the
  message does; \<open>UnexpectedError\<close> is the answer of the \<open>catch\<close> block.
\<close>

datatype failure =
  InvalidRequestFormat
| InvalidPlatformOrVendorCode
| ApiError "jstring option" "bool option"
| ProductFetchFailed bool bool
| UnexpectedError

datatype response =
  Succeeded "comparison js_object" vendor_mapping nat nat nat
| Failed failure

fun response_success :: "response \<Rightarrow> bool" where
  "response_success (Succeeded d v n1 n2 n3) = True"
| "response_success (Failed f) = False"

fun response_data :: "response \<Rightarrow> comparison js_object option" where
  "response_data (Succeeded d v n1 n2 n3) = Some d"
| "response_data (Failed f) = None"

definition vendorLookup :: "network \<Rightarrow> request \<Rightarrow> api_result option" where
  "vendorLookup net req =
     (if sourcePlatform req = Some (js ''snappfood'') \<and> truthy (sfVendorCode req)
      then Some (getVendorData net (js ''snappfood'') (the (sfVendorCode req)))
      else if sourcePlatform req = Some (js ''tapsifood'') \<and> truthy (tfVendorCode req)
      then Some (getVendorData net (js ''tapsifood'') (the (tfVendorCode req)))
      else None)"

definition fetchPrices :: "network \<Rightarrow> request \<Rightarrow> response" where
  "fetchPrices net req =
     (if \<not> truthy (sourcePlatform req)
         \<or> (\<not> truthy (sfVendorCode req) \<and> \<not> truthy (tfVendorCode req))
      then Failed InvalidRequestFormat
      else
        (case vendorLookup net req of
           None \<Rightarrow> Failed InvalidPlatformOrVendorCode
         | Some apiResult \<Rightarrow>
             if \<not> success apiResult
             then Failed (ApiError (api_error apiResult) (isConnectionError apiResult))
             else
               (case api_data apiResult of
                  None \<Rightarrow> Failed UnexpectedError
                | Some d \<Rightarrow>
                    (case vendor_info d of
                       None \<Rightarrow> Failed UnexpectedError
                     | Some vi \<Rightarrow>
                         (case (fetchSnappfoodData net (sf_code vi),
                                fetchTapsifoodData net (tf_code vi)) of
                            (Some sfProducts, Some tfProducts) \<Rightarrow>
                              (case item_mappings d of
                                 None \<Rightarrow> Failed UnexpectedError
                               | Some ms \<Rightarrow>
                                   Succeeded
                                     (processAndCompare sfProducts tfProducts
                                        (the (sourcePlatform req)) ms)
                                     vi (length sfProducts) (length tfProducts)
                                     (length (processAndCompare sfProducts tfProducts
                                        (the (sourcePlatform req)) ms)))
                          | (sfProducts, tfProducts) \<Rightarrow>
                              Failed (ProductFetchFailed (sfProducts = None)
                                        (tfProducts = None)))))))"

text \<open>
  What \<open>processAndCompare\<close> is to store under one base identifier, read off the three
  collections: the comparison of the base product with its mapped counterpart, when
  the mapping names a counterpart other than 0, the counterpart is there, and the base
  price is positive.
\<close>

definition recordFor ::
  "product js_object \<Rightarrow> product js_object \<Rightarrow> int js_object \<Rightarrow> int \<Rightarrow> comparison option" where
  "recordFor bs cs ms baseId =
     (case map_of ms baseId of
        None \<Rightarrow> None
      | Some cid \<Rightarrow>
          if cid = 0 then None
          else (case map_of cs cid of
                  None \<Rightarrow> None
                | Some cp \<Rightarrow>
                   (case map_of bs baseId of
                      None \<Rightarrow> None
                    | Some bp \<Rightarrow> if 0 < price bp then Some (comparisonRecord bp cp) else None)))"

text \<open>
  Two networks for the examples: the mapping server knows the vendor and maps product
  1 to product 9; in the first SnappFood does not answer, in the second both platforms
  do.
\<close>

definition example_vendor :: vendor_mapping where
  "example_vendor =
     \<lparr>sf_code = Some (js ''s1''), sf_name = None, tf_code = Some (js ''t1''), tf_name = None\<rparr>"

definition example_api_result :: api_result where
  "example_api_result =
     \<lparr>success = True,
      api_data = Some \<lparr>vendor_info = Some example_vendor, item_mappings = Some [(1, 9)]\<rparr>,
      api_error = None, isConnectionError = None\<rparr>"

definition example_sf_products :: "product js_object" where
  "example_sf_products = [(1, \<lparr>pid = 1, name = [], price = 100, originalPrice = 100\<rparr>)]"

definition example_tf_products :: "product js_object" where
  "example_tf_products = [(9, \<lparr>pid = 9, name = [], price = 80, originalPrice = 80\<rparr>)]"

definition network_sf_down :: network where
  "network_sf_down =
     \<lparr>getVendorData = (\<lambda>platform code. example_api_result),
      fetchSnappfoodData = (\<lambda>code. None),
      fetchTapsifoodData = (\<lambda>code. Some example_tf_products)\<rparr>"

definition network_up :: network where
  "network_up =
     \<lparr>getVendorData = (\<lambda>platform code. example_api_result),
      fetchSnappfoodData = (\<lambda>code. Some example_sf_products),
      fetchTapsifoodData = (\<lambda>code. Some example_tf_products)\<rparr>"

definition example_request :: request where
  "example_request =
     \<lparr>sfVendorCode = Some (js ''s1''), tfVendorCode = None,
      sourcePlatform = Some (js ''snappfood'')\<rparr>"

section \<open>Vendor highlighting on the list pages\<close>

text \<open>
  \<open>processVendorElements\<close> reads the restaurant links of the page and decorates the
  card of each vendor that is paired or highly rated. What the page adapter derives
  from a link is data of the model: the vendor code that \<open>extractVendorCodeFromUrl\<close>
  finds in its address, the container that \<open>findBestContainer\<close> resolves, and the
  rating that \<open>extractRatingFromElement\<close> reads from that container when asked.
  Elements are handles; ratings are the decimals of the page.
\<close>

type_synonym element = nat




text \<open>
  \<^verbatim>\<open>const isHighRated = rating && rating >= PERF_CONFIG.RATING_THRESHOLD\<close> is \<open>null\<close> for
  no rating, \<open>0\<close> for the rating 0, and a boolean otherwise.
\<close>

datatype high_rated = HNull | HZero | HBool bool



text \<open>
  \<^verbatim>\<open>const uniqueId = `${vendorCode}-${rating || 'no-rating'}-${isPaired}-${isHighRated}`\<close>:
  the decoration key. Vendor codes are alphanumeric, so the string determines its four
  parts and the model keeps the four parts; \<open>rating || 'no-rating'\<close> is \<open>'no-rating'\<close>
  for no rating and for the rating 0.
\<close>

type_synonym uniqueId = "jstring \<times> rat option \<times> bool \<times> high_rated"


datatype decoration = Premium | HighRating | Paired










definition decoratedElement :: "element \<times> decoration \<times> uniqueId \<Rightarrow> element" where
  "decoratedElement d = fst d"





section \<open>The search of the content script\<close>

subsection \<open>String operations\<close>

text \<open>
  The white space of JavaScript, which \<open>trim\<close> and the pattern \<open>\s\<close> recognise: tab, line
  feed, vertical tab, form feed, carriage return, space, no-break space, the Unicode
  space separators, the line and paragraph separators and the byte-order mark.
\<close>

definition is_whitespace :: "nat \<Rightarrow> bool" where
  "is_whitespace c =
     (c \<in> {9, 10, 11, 12, 13, 32, 160, 5760, 8232, 8233, 8239, 8287, 12288, 65279}
      \<or> (8192 \<le> c \<and> c \<le> 8202))"

text \<open>
  \<open>toLowerCase\<close> on the letters the model covers: the ASCII capitals are folded, the
  Persian and Arabic letters, the digits and the punctuation have no case.
\<close>

definition toLowerCase :: "jstring \<Rightarrow> jstring" where
  "toLowerCase s = map (\<lambda>c. if 65 \<le> c \<and> c \<le> 90 then c + 32 else c) s"

definition trim :: "jstring \<Rightarrow> jstring" where
  "trim s = rev (dropWhile is_whitespace (rev (dropWhile is_whitespace s)))"

text \<open>
  \<open>s.split(/\s+/)\<close>: the pieces between the maximal runs of white space; a run at an
  end of the string leaves an empty piece there, and the empty string has one empty
  piece.
\<close>

function split_ws :: "jstring \<Rightarrow> jstring list" where
  "split_ws s =
     (case dropWhile (\<lambda>c. \<not> is_whitespace c) s of
        [] \<Rightarrow> [s]
      | c # rest \<Rightarrow> takeWhile (\<lambda>c. \<not> is_whitespace c) s # split_ws (dropWhile is_whitespace rest))"
  by pat_completeness auto
termination
proof (relation "measure length")
  show "wf (measure length)" by simp
next
  fix s :: jstring and c rest
  assume a: "dropWhile (\<lambda>c. \<not> is_whitespace c) s = c # rest"
  have "length (dropWhile is_whitespace rest) \<le> length rest"
    by (rule length_dropWhile_le)
  moreover have "length (c # rest) \<le> length s"
    using length_dropWhile_le[of "\<lambda>c. \<not> is_whitespace c" s] a by simp
  ultimately show "(dropWhile is_whitespace rest, s) \<in> measure length" by simp
qed

definition startsWith :: "jstring \<Rightarrow> jstring \<Rightarrow> bool" where
  "startsWith text w = (take (length w) text = w)"

primrec js_includes :: "jstring \<Rightarrow> jstring \<Rightarrow> bool" where
  "js_includes [] w = (w = [])"
| "js_includes (c # cs) w = (startsWith (c # cs) w \<or> js_includes cs w)"

text \<open>
  \<^verbatim>\<open>Array.prototype.sort(compare)\<close>: a stable sort; \<open>a\<close> stays before \<open>b\<close> unless
  \<open>compare(a, b) > 0\<close>. For a comparator that is a consistent order, which is what the
  language asks of it, the result is the one of this insertion sort.
\<close>

fun js_insert :: "('a \<Rightarrow> 'a \<Rightarrow> int) \<Rightarrow> 'a \<Rightarrow> 'a list \<Rightarrow> 'a list" where
  "js_insert cmp x [] = [x]"
| "js_insert cmp x (y # ys) = (if cmp x y \<le> 0 then x # y # ys else y # js_insert cmp x ys)"

definition js_sort :: "('a \<Rightarrow> 'a \<Rightarrow> int) \<Rightarrow> 'a list \<Rightarrow> 'a list" where
  "js_sort cmp xs = foldr (js_insert cmp) xs []"

subsection \<open>Scoring: \<open>calculateSimpleSimilarity\<close> and \<open>performSmartSearch\<close>\<close>

text \<open>
  \<open>normalizeText\<close> of \<open>calculateSimpleSimilarity\<close>: Arabic yeh (U+064A) becomes Persian yeh
  (U+06CC), Arabic kaf (U+0643) becomes keheh (U+06A9), teh marbuta (U+0629) becomes heh
  (U+0647); then lower case; then trim.
\<close>

definition canonical_letter :: "nat \<Rightarrow> nat" where
  "canonical_letter c =
     (if c = 1610 then 1740 else if c = 1603 then 1705 else if c = 1577 then 1607 else c)"

definition normalizeText :: "jstring \<Rightarrow> jstring" where
  "normalizeText str = trim (toLowerCase (map canonical_letter str))"

text \<open>
  \<^verbatim>\<open>for (let i = 0; i < normalizedText.length && queryIndex < normalizedQuery.length; i++)\<close>:
  the characters of the query found in order in the text, 10 points each. The result
  is the score and the part of the query not yet matched.
\<close>

fun subsequence_scan :: "jstring \<Rightarrow> jstring \<Rightarrow> nat \<Rightarrow> nat \<times> jstring" where
  "subsequence_scan [] q score = (score, q)"
| "subsequence_scan (c # cs) [] score = (score, [])"
| "subsequence_scan (c # cs) (x # xs) score =
     (if c = x then subsequence_scan cs xs (score + 10) else subsequence_scan cs (x # xs) score)"

definition calculateSimpleSimilarity :: "jstring \<Rightarrow> jstring \<Rightarrow> nat" where
  "calculateSimpleSimilarity query text =
     (let normalizedQuery = normalizeText query;
          normalizedText = normalizeText text;
          (score1, unmatched) = subsequence_scan normalizedText normalizedQuery 0;
          score2 = (if unmatched = [] then score1 + 30 else score1)
      in fold (\<lambda>word score.
                 if 1 < length word \<and> js_includes normalizedText word then score + 20 else score)
              (split_ws normalizedQuery) score2)"

text \<open>
  The score that \<open>performSmartSearch\<close> gives one record, from its searchable text.
\<close>

definition searchScoreOf :: "jstring \<Rightarrow> jstring list \<Rightarrow> jstring \<Rightarrow> nat" where
  "searchScoreOf lowerQuery queryWords searchableText =
     (let score1 = (if js_includes searchableText lowerQuery then 1000 else 0);
          score2 = fold (\<lambda>word score.
                      if js_includes searchableText word then
                        score + 100
                        + (if js_includes searchableText (32 # word) \<or> startsWith searchableText word
                           then 50 else 0)
                      else score + calculateSimpleSimilarity word searchableText)
                   queryWords score1
      in if length searchableText < 50 then score2 + 10 else score2)"

text \<open>
  The records searched: the comparisons of the menu page, or the vendors of the list.
  A vendor of the list is a mapping, or a lookup response that holds one;
  \<open>getVendorMapping\<close> finds the mapping in both. A search result is the record with its
  score and its searchable text (\<^verbatim>\<open>{ ...item, searchScore: score, searchableText }\<close>).
\<close>

datatype vendor = FlatVendor vendor_mapping | LookupVendor vendor_mapping nat

fun getVendorMapping :: "vendor \<Rightarrow> vendor_mapping" where
  "getVendorMapping (FlatVendor m) = m"
| "getVendorMapping (LookupVendor m item_count) = m"

record 'a hit =
  item :: 'a
  searchScore :: "nat option"
  searchableText :: "jstring option"

text \<open>\<open>x || ''\<close> on a string that may be missing.\<close>

definition or_empty :: "jstring option \<Rightarrow> jstring" where
  "or_empty s = (case s of None \<Rightarrow> [] | Some t \<Rightarrow> t)"

definition productText :: "comparison hit \<Rightarrow> jstring" where
  "productText h =
     toLowerCase (name (baseProduct (item h)) @ [32] @ name (counterpartProduct (item h)))"

definition vendorText :: "vendor hit \<Rightarrow> jstring" where
  "vendorText h =
     (let vendorMapping = getVendorMapping (item h)
      in toLowerCase (or_empty (sf_name vendorMapping) @ [32] @ or_empty (tf_name vendorMapping))
         @ toLowerCase ([32] @ or_empty (sf_code vendorMapping) @ [32]
                        @ or_empty (tf_code vendorMapping)))"

subsection \<open>Arrays\<close>

text \<open>
  Arrays are objects: \<open>sort\<close> changes the array it is called on, \<open>filter\<close>, \<open>map\<close> and
  \<open>slice\<close> build a new one. A store keeps the contents of every array under its
  address and hands out fresh addresses.
\<close>

type_synonym addr = nat

record 'a store =
  cells :: "addr \<Rightarrow> 'a list"
  nextAddr :: addr

definition alloc :: "'a list \<Rightarrow> 'a store \<Rightarrow> addr \<times> 'a store" where
  "alloc xs st = (nextAddr st, st\<lparr>cells := (cells st)(nextAddr st := xs), nextAddr := nextAddr st + 1\<rparr>)"

definition arr_filter :: "('a \<Rightarrow> bool) \<Rightarrow> addr \<Rightarrow> 'a store \<Rightarrow> addr \<times> 'a store" where
  "arr_filter P a st = alloc (filter P (cells st a)) st"

definition arr_slice :: "nat \<Rightarrow> addr \<Rightarrow> 'a store \<Rightarrow> addr \<times> 'a store" where
  "arr_slice n a st = alloc (take n (cells st a)) st"

definition arr_sort :: "('a \<Rightarrow> 'a \<Rightarrow> int) \<Rightarrow> addr \<Rightarrow> 'a store \<Rightarrow> addr \<times> 'a store" where
  "arr_sort cmp a st = (a, st\<lparr>cells := (cells st)(a := js_sort cmp (cells st a))\<rparr>)"

text \<open>
  \<open>performSmartSearch(query, data, hasProductData)\<close>, with the searchable text of a
  record as the parameter that \<open>hasProductData\<close> selects and \<open>records\<close> for \<open>data\<close>. Without
  a query word the function returns the array it was given; otherwise a new array of the scored records above
  the threshold, best first.
\<close>

definition scoreHit :: "('a hit \<Rightarrow> jstring) \<Rightarrow> jstring \<Rightarrow> jstring list \<Rightarrow> 'a hit \<Rightarrow> 'a hit" where
  "scoreHit textOf lowerQuery queryWords h =
     h\<lparr>searchScore := Some (searchScoreOf lowerQuery queryWords (textOf h)),
       searchableText := Some (textOf h)\<rparr>"

definition score_value :: "'a hit \<Rightarrow> int" where
  "score_value h = (case searchScore h of None \<Rightarrow> 0 | Some n \<Rightarrow> int n)"

definition performSmartSearch ::
  "('a hit \<Rightarrow> jstring) \<Rightarrow> jstring \<Rightarrow> addr \<Rightarrow> 'a hit store \<Rightarrow> addr \<times> 'a hit store" where
  "performSmartSearch textOf query records st =
     (let lowerQuery = trim (toLowerCase query);
          queryWords = filter (\<lambda>word. 0 < length word) (split_ws lowerQuery)
      in if queryWords = [] then (records, st)
         else alloc (js_sort (\<lambda>a b. score_value b - score_value a)
                       (filter (\<lambda>h. 5 < score_value h)
                          (map (scoreHit textOf lowerQuery queryWords) (cells st records)))) st)"

subsection \<open>Filters and sort orders\<close>

text \<open>
  \<open>applyCategoryFilters\<close> returns the vendors' array as it is (\<open>if (!hasProductData)
  return results\<close>); this is the rest of it, for comparisons.
\<close>

definition applyCategoryFilters ::
  "int option \<Rightarrow> jstring list \<Rightarrow> addr \<Rightarrow> jstring \<Rightarrow> comparison hit store
   \<Rightarrow> addr \<times> comparison hit store" where
  "applyCategoryFilters maxPrice favorites results category st =
     (if category = js ''tf-cheaper'' then arr_filter (\<lambda>r. 0 < priceDiff (item r)) results st
      else if category = js ''sf-cheaper'' then arr_filter (\<lambda>r. priceDiff (item r) < 0) results st
      else if category = js ''same-price'' then arr_filter (\<lambda>r. priceDiff (item r) = 0) results st
      else if category = js ''high-savings'' then
        (let (filtered, st1) = arr_filter (\<lambda>r. 5000 < \<bar>priceDiff (item r)\<bar>) results st
         in case maxPrice of
              None \<Rightarrow> (filtered, st1)
            | Some m \<Rightarrow>
                if m = 0 then (filtered, st1)
                else arr_filter (\<lambda>r. price (baseProduct (item r)) \<le> m) filtered st1)
      else if category = js ''favorites'' then
        arr_filter (\<lambda>r. name (baseProduct (item r)) \<in> set favorites) results st
      else (results, st))"

text \<open>
  \<open>applySorting\<close>, in its two halves: the first \<open>switch\<close>, which vendors reach, and the
  second, which comparisons reach. \<open>localeCompare\<close> with the Persian collation is a
  parameter.
\<close>

definition vendorNameCompare ::
  "(jstring \<Rightarrow> jstring \<Rightarrow> int) \<Rightarrow> vendor hit \<Rightarrow> vendor hit \<Rightarrow> int" where
  "vendorNameCompare localeCompare a b =
     localeCompare (or_empty (sf_name (getVendorMapping (item a))))
                   (or_empty (sf_name (getVendorMapping (item b))))"

definition applySortingVendors ::
  "(jstring \<Rightarrow> jstring \<Rightarrow> int) \<Rightarrow> addr \<Rightarrow> jstring \<Rightarrow> vendor hit store
   \<Rightarrow> addr \<times> vendor hit store" where
  "applySortingVendors localeCompare results sortType st =
     (if sortType = js ''name-asc'' then
        arr_sort (vendorNameCompare localeCompare) results st
      else if sortType = js ''name-desc'' then
        arr_sort (\<lambda>a b. vendorNameCompare localeCompare b a) results st
      else (results, st))"

definition applySortingProducts ::
  "(jstring \<Rightarrow> jstring \<Rightarrow> int) \<Rightarrow> addr \<Rightarrow> jstring \<Rightarrow> comparison hit store
   \<Rightarrow> addr \<times> comparison hit store" where
  "applySortingProducts localeCompare results sortType st =
     (if sortType = js ''price-asc'' then
        arr_sort (\<lambda>a b. price (baseProduct (item a)) - price (baseProduct (item b))) results st
      else if sortType = js ''price-desc'' then
        arr_sort (\<lambda>a b. price (baseProduct (item b)) - price (baseProduct (item a))) results st
      else if sortType = js ''savings-desc'' then
        arr_sort (\<lambda>a b. \<bar>priceDiff (item b)\<bar> - \<bar>priceDiff (item a)\<bar>) results st
      else if sortType = js ''percent-desc'' then
        arr_sort (\<lambda>a b. percentDiff (item b) - percentDiff (item a)) results st
      else if sortType = js ''name-asc'' then
        arr_sort (\<lambda>a b. localeCompare (name (baseProduct (item a))) (name (baseProduct (item b))))
                 results st
      else if sortType = js ''name-desc'' then
        arr_sort (\<lambda>a b. localeCompare (name (baseProduct (item b))) (name (baseProduct (item a))))
                 results st
      else (results, st))"

subsection \<open>\<open>performAdvancedSearch\<close>\<close>

text \<open>
  The state that a search reads and writes: the comparison data and the vendor list of
  \<open>ExtensionState\<close>, its search cache, the two stores of arrays, and the fields of
  \<open>SearchManager\<close>. A result list is a reference to an array of comparisons or to an
  array of vendors.
\<close>

datatype results_ref = ProductResults addr | VendorResults addr

record search_state =
  comparisonData :: "comparison js_object"
  vendorList :: addr
  productArrays :: "comparison hit store"
  vendorArrays :: "vendor hit store"
  searchCache :: "(jstring, results_ref) PerformanceCache"
  currentCategory :: jstring
  currentSort :: jstring
  maxPrice :: "int option"
  favorites :: "jstring list"
  searchResults :: "results_ref option"
  filteredResults :: "results_ref option"
  visibleResults :: nat

definition MAX_SEARCH_RESULTS :: nat where
  "MAX_SEARCH_RESULTS = 200"

definition MAX_VISIBLE_RESULTS :: nat where
  "MAX_VISIBLE_RESULTS = 50"

text \<open>\<^verbatim>\<open>`${query}-${category}-${hasProductData}`\<close>\<close>

definition cacheKeyOf :: "jstring \<Rightarrow> jstring \<Rightarrow> bool \<Rightarrow> jstring" where
  "cacheKeyOf query category hasProductData =
     query @ js ''-'' @ category @ js ''-'' @ js (if hasProductData then ''true'' else ''false'')"

definition limitResults :: "addr \<Rightarrow> 'a store \<Rightarrow> addr \<times> 'a store" where
  "limitResults results st =
     (if MAX_SEARCH_RESULTS < length (cells st results)
      then arr_slice MAX_SEARCH_RESULTS results st else (results, st))"

text \<open>The pipeline of a cache miss, on comparisons and on vendors.\<close>

definition searchProducts ::
  "(jstring \<Rightarrow> jstring \<Rightarrow> int) \<Rightarrow> jstring \<Rightarrow> search_state \<Rightarrow> addr \<times> comparison hit store" where
  "searchProducts localeCompare query s =
     (let (r0, st0) = alloc (map (\<lambda>c. \<lparr>item = c, searchScore = None, searchableText = None\<rparr>)
                               (map snd (comparisonData s))) (productArrays s);
          (r1, st1) = (if 1 \<le> length query then performSmartSearch productText query r0 st0
                       else (r0, st0));
          (r2, st2) = applyCategoryFilters (maxPrice s) (favorites s) r1 (currentCategory s) st1;
          (r3, st3) = applySortingProducts localeCompare r2 (currentSort s) st2
      in limitResults r3 st3)"

definition searchVendors ::
  "(jstring \<Rightarrow> jstring \<Rightarrow> int) \<Rightarrow> jstring \<Rightarrow> search_state \<Rightarrow> addr \<times> vendor hit store" where
  "searchVendors localeCompare query s =
     (let (r0, st0) = (vendorList s, vendorArrays s);
          (r1, st1) = (if 1 \<le> length query then performSmartSearch vendorText query r0 st0
                       else (r0, st0));
          (r3, st3) = applySortingVendors localeCompare r1 (currentSort s) st1
      in limitResults r3 st3)"

text \<open>
  The body of the timer callback of \<open>performAdvancedSearch(query, list, input)\<close>, without
  the rendering, the status line and the history: look the key up in the cache; on a
  miss run the pipeline and cache what it returns; record the result list in
  \<open>searchManager\<close>.
\<close>

definition performAdvancedSearch ::
  "(jstring \<Rightarrow> jstring \<Rightarrow> int) \<Rightarrow> jstring \<Rightarrow> search_state \<Rightarrow> search_state" where
  "performAdvancedSearch localeCompare query s =
     (let category = currentCategory s;
          hasProductData = (0 < length (comparisonData s));
          cacheKey = cacheKeyOf query category hasProductData;
          (cached, cache1) = cache_get cacheKey (searchCache s);
          s1 = s\<lparr>searchCache := cache1\<rparr>;
          (results, s2) =
            (case cached of
               Some results \<Rightarrow> (results, s1)
             | None \<Rightarrow>
                 if hasProductData then
                   (let (r, st) = searchProducts localeCompare query s1
                    in (ProductResults r,
                        s1\<lparr>productArrays := st,
                           searchCache := cache_set cacheKey (ProductResults r) cache1\<rparr>))
                 else
                   (let (r, st) = searchVendors localeCompare query s1
                    in (VendorResults r,
                        s1\<lparr>vendorArrays := st,
                           searchCache := cache_set cacheKey (VendorResults r) cache1\<rparr>)))
      in s2\<lparr>searchResults := Some results, filteredResults := Some results,
             visibleResults := MAX_VISIBLE_RESULTS\<rparr>)"

text \<open>The contents of a result list in a state.\<close>

fun vendors_of :: "search_state \<Rightarrow> results_ref option \<Rightarrow> vendor hit list" where
  "vendors_of s (Some (VendorResults a)) = cells (vendorArrays s) a"
| "vendors_of s (Some (ProductResults a)) = []"
| "vendors_of s None = []"

fun products_of :: "search_state \<Rightarrow> results_ref option \<Rightarrow> comparison hit list" where
  "products_of s (Some (ProductResults a)) = cells (productArrays s) a"
| "products_of s (Some (VendorResults a)) = []"
| "products_of s None = []"

text \<open>
  For the examples: a collation that compares code unit by code unit, a vendor of the
  list, and a state of the list page with two vendors, no comparison data and an empty
  search cache.
\<close>

fun code_unit_compare :: "jstring \<Rightarrow> jstring \<Rightarrow> int" where
  "code_unit_compare [] [] = 0"
| "code_unit_compare [] (y # ys) = - 1"
| "code_unit_compare (x # xs) [] = 1"
| "code_unit_compare (x # xs) (y # ys) =
     (if x < y then - 1 else if y < x then 1 else code_unit_compare xs ys)"

definition vendor_hit :: "string \<Rightarrow> string \<Rightarrow> string \<Rightarrow> string \<Rightarrow> vendor hit" where
  "vendor_hit sfName tfName sfCode tfCode =
     \<lparr>item = FlatVendor \<lparr>sf_code = Some (js sfCode), sf_name = Some (js sfName),
                          tf_code = Some (js tfCode), tf_name = Some (js tfName)\<rparr>,
      searchScore = None, searchableText = None\<rparr>"

definition burger_vendor :: "vendor hit" where
  "burger_vendor = vendor_hit ''Burger'' ''Burger House'' ''r1'' ''t2''"

definition kebab_vendor :: "vendor hit" where
  "kebab_vendor = vendor_hit ''Kebab'' ''Kebab Club'' ''k3'' ''k4''"

definition list_page :: search_state where
  "list_page =
     \<lparr>comparisonData = [],
      vendorList = 0,
      productArrays = \<lparr>cells = (\<lambda>a. []), nextAddr = 0\<rparr>,
      vendorArrays = \<lparr>cells = (\<lambda>a. if a = 0 then [kebab_vendor, burger_vendor] else []),
                      nextAddr = 1\<rparr>,
      searchCache = new_PerformanceCache 200,
      currentCategory = js ''all'',
      currentSort = js ''relevance'',
      maxPrice = None,
      favorites = [],
      searchResults = None,
      filteredResults = None,
      visibleResults = 50\<rparr>"

text \<open>A menu page with two compared products, sorted by ascending price.\<close>

definition example_comparison :: "int \<Rightarrow> int \<Rightarrow> int \<Rightarrow> int \<Rightarrow> comparison" where
  "example_comparison i basePrice counterpartPrice percent =
     \<lparr>baseProduct = \<lparr>pid = i, name = js ''kebab'', price = basePrice, originalPrice = basePrice\<rparr>,
      counterpartProduct =
        \<lparr>pid = i + 100, name = js ''kebab'', price = counterpartPrice,
         originalPrice = counterpartPrice\<rparr>,
      priceDiff = basePrice - counterpartPrice,
      percentDiff = percent,
      isCheaper = (0 < basePrice - counterpartPrice),
      isMoreExpensive = (basePrice - counterpartPrice < 0),
      isSamePrice = (basePrice - counterpartPrice = 0)\<rparr>"

definition menu_page :: search_state where
  "menu_page =
     \<lparr>comparisonData = [(1, example_comparison 1 100 80 20), (2, example_comparison 2 50 60 20)],
      vendorList = 0,
      productArrays = \<lparr>cells = (\<lambda>a. []), nextAddr = 0\<rparr>,
      vendorArrays = \<lparr>cells = (\<lambda>a. []), nextAddr = 1\<rparr>,
      searchCache = new_PerformanceCache 200,
      currentCategory = js ''all'',
      currentSort = js ''price-asc'',
      maxPrice = None,
      favorites = [],
      searchResults = None,
      filteredResults = None,
      visibleResults = 50\<rparr>"

section \<open>Properties of the map model\<close>

lemma map_of_map_delete: "map_of (map_delete k m) k' = (if k' = k then None else map_of m k')"
  by (induction m) (auto simp: map_delete_def)

lemma map_of_map_set: "map_of (map_set k v m) k' = (if k' = k then Some v else map_of m k')"
  by (induction m) auto

lemma map_has_map_delete: "map_has k' (map_delete k m) = (k' \<noteq> k \<and> map_has k' m)"
  by (simp add: map_has_def map_of_map_delete)

lemma map_set_new: "\<not> map_has k m \<Longrightarrow> map_set k v m = m @ [(k, v)]"
  by (induction m) (auto simp: map_has_def split: if_splits)

lemma map_set_keys: "map_has k m \<Longrightarrow> map fst (map_set k v m) = map fst m"
  by (induction m) (auto simp: map_has_def split: if_splits)

lemma map_has_tl: "\<not> map_has k m \<Longrightarrow> \<not> map_has k (tl m)"
  by (cases m) (auto simp: map_has_def split: if_splits)

lemma map_of_map_delete_first:
  "map_of (map_delete_first m) k = Some x \<Longrightarrow> map_of m k = Some x"
  by (auto simp: map_delete_first_def map_of_map_delete split: option.splits if_splits)

lemma map_delete_first_distinct:
  "distinct (map fst m) \<Longrightarrow> map_delete_first m = tl m"
proof (cases m)
  case Nil
  then show ?thesis by (simp add: map_delete_first_def map_first_key_def)
next
  case (Cons p ps)
  assume "distinct (map fst m)"
  with Cons have "fst p \<notin> fst ` set ps" by simp
  then have "\<forall>q \<in> set ps. fst q \<noteq> fst p" by (metis imageI)
  then have "filter (\<lambda>q. fst q \<noteq> fst p) ps = ps" by (simp add: filter_id_conv)
  with Cons show ?thesis by (simp add: map_delete_first_def map_first_key_def map_delete_def)
qed


section \<open>Least-recently-used order in the two caches\<close>

text \<open>
  A \<open>set\<close> of a new key at capacity removes the head of the insertion order and appends
  the new key, in both caches.
\<close>

lemma cache_set_evicts_head:
  assumes "distinct (map fst (cache c))" "\<not> map_has k (cache c)" "maxSize c \<le> length (cache c)"
  shows "cache (cache_set k v c) = tl (cache c) @ [(k, v)]"
  using assms
  by (simp add: cache_set_def map_delete_first_distinct map_set_new map_has_tl)

lemma ttl_cache_set_evicts_head:
  assumes "distinct (map fst (cache c))" "\<not> map_has k (cache c)" "maxSize c \<le> length (cache c)"
  shows "cache (ttl_cache_set k v t c) =
         tl (cache c) @ [(k, \<lparr>data = v, expiry = t + ttl c, created = t\<rparr>)]"
  using assms
  by (simp add: ttl_cache_set_def map_delete_first_distinct map_set_new map_has_tl)

lemma cache_set_below_capacity:
  assumes "\<not> map_has k (cache c)" "length (cache c) < maxSize c"
  shows "cache (cache_set k v c) = cache c @ [(k, v)]"
  using assms by (simp add: cache_set_def map_set_new)

lemma ttl_cache_set_below_capacity:
  assumes "\<not> map_has k (cache c)" "length (cache c) < maxSize c"
  shows "cache (ttl_cache_set k v t c) =
         cache c @ [(k, \<lparr>data = v, expiry = t + ttl c, created = t\<rparr>)]"
  using assms by (simp add: ttl_cache_set_def map_set_new)

text \<open>A hit moves the entry to the tail, in both caches.\<close>

lemma cache_get_moves_to_tail:
  "map_of (cache c) k = Some v \<Longrightarrow>
   cache (snd (cache_get k c)) = map_delete k (cache c) @ [(k, v)]"
  by (simp add: cache_get_def map_set_new map_has_map_delete)

lemma ttl_cache_get_moves_to_tail:
  "map_of (cache c) k = Some it \<Longrightarrow> now < expiry it \<Longrightarrow>
   cache (snd (ttl_cache_get k now c)) = map_delete k (cache c) @ [(k, it)]"
  by (simp add: ttl_cache_get_def map_set_new map_has_map_delete)

text \<open>
  A \<open>set\<close> of a key that is already stored moves it to the tail in the content script's
  cache, which deletes the key first. The background cache does not delete it, and the
  key stays where it was.
\<close>

lemma cache_set_moves_to_tail:
  "map_has k (cache c) \<Longrightarrow> cache (cache_set k v c) = map_delete k (cache c) @ [(k, v)]"
  by (simp add: cache_set_def map_set_new map_has_map_delete)

lemma ttl_cache_set_keeps_position:
  "map_has k (cache c) \<Longrightarrow> map fst (cache (ttl_cache_set k v t c)) = map fst (cache c)"
  by (simp add: ttl_cache_set_def map_set_keys)

text \<open>
  Filling an empty content-script cache of capacity \<open>n > 0\<close> with distinct keys, at any
  times, keeps the last \<open>n\<close> of them: with \<open>n + 1\<close> keys, the first one inserted is the one
  evicted.
\<close>

lemma cache_fill_keys:
  assumes "distinct (map fst kvs)" "0 < n"
  shows "map fst (cache (cache_run (map (\<lambda>(k, v, t). CSet k v t) kvs) (new_PerformanceCache n)))
         = drop (length kvs - n) (map fst kvs)
       \<and> maxSize (cache_run (map (\<lambda>(k, v, t). CSet k v t) kvs) (new_PerformanceCache n)) = n"
  using assms(1)
proof (induction kvs rule: rev_induct)
  case Nil
  then show ?case by (simp add: cache_run_def new_PerformanceCache_def)
next
  case (snoc kv kvs)
  obtain k v t where kv: "kv = (k, v, t)" by (cases kv)
  let ?c = "cache_run (map (\<lambda>(k, v, t). CSet k v t) kvs) (new_PerformanceCache n)"
  from snoc have keys: "map fst (cache ?c) = drop (length kvs - n) (map fst kvs)"
    and sz: "maxSize ?c = n" by auto
  from snoc.prems kv have knew: "k \<notin> set (map fst kvs)" by auto
  then have "k \<notin> set (map fst (cache ?c))" unfolding keys by (auto dest: in_set_dropD)
  then have nohas: "\<not> map_has k (cache ?c)"
    by (simp add: map_has_def map_of_eq_None_iff)
  from snoc.prems have dist: "distinct (map fst (cache ?c))"
    unfolding keys by (simp add: distinct_drop)
  have "length (map fst (cache ?c)) = length (drop (length kvs - n) (map fst kvs))"
    using keys by simp
  then have len: "length (cache ?c) = min (length kvs) n" by auto
  have run: "cache_run (map (\<lambda>(k, v, t). CSet k v t) (kvs @ [kv])) (new_PerformanceCache n)
             = cache_set k v ?c"
    by (simp add: cache_run_def kv)
  have sz': "maxSize (cache_set k v ?c) = n"
    using sz by (simp add: cache_set_def Let_def)
  show ?case
  proof (cases "n \<le> length kvs")
    case True
    with len sz have "maxSize ?c \<le> length (cache ?c)" by simp
    from cache_set_evicts_head[OF dist nohas this]
    have "map fst (cache (cache_set k v ?c)) = tl (map fst (cache ?c)) @ [k]"
      by (simp add: map_tl)
    also have "\<dots> = drop (Suc (length kvs - n)) (map fst kvs) @ [k]"
      unfolding keys by (simp add: drop_Suc tl_drop)
    also have "\<dots> = drop (length (kvs @ [kv]) - n) (map fst (kvs @ [kv]))"
      using True \<open>0 < n\<close> by (simp add: kv Suc_diff_le)
    finally show ?thesis using run sz' by simp
  next
    case False
    with len sz have "length (cache ?c) < maxSize ?c" by simp
    from cache_set_below_capacity[OF nohas this]
    have "map fst (cache (cache_set k v ?c)) = map fst (cache ?c) @ [k]" by simp
    with False keys run sz' show ?thesis by (simp add: kv)
  qed
qed

text \<open>The same for the background cache, whatever the clock of each call.\<close>

lemma ttl_cache_fill_keys:
  assumes "distinct (map fst kvs)" "0 < n"
  shows "map fst (cache (ttl_run (map (\<lambda>(k, v, t). Set k v t) kvs) (new_TTLCache n T)))
         = drop (length kvs - n) (map fst kvs)
       \<and> maxSize (ttl_run (map (\<lambda>(k, v, t). Set k v t) kvs) (new_TTLCache n T)) = n"
  using assms(1)
proof (induction kvs rule: rev_induct)
  case Nil
  then show ?case by (simp add: ttl_run_def new_TTLCache_def)
next
  case (snoc kv kvs)
  obtain k v t where kv: "kv = (k, v, t)" by (cases kv)
  let ?c = "ttl_run (map (\<lambda>(k, v, t). Set k v t) kvs) (new_TTLCache n T)"
  from snoc have keys: "map fst (cache ?c) = drop (length kvs - n) (map fst kvs)"
    and sz: "maxSize ?c = n" by auto
  from snoc.prems kv have knew: "k \<notin> set (map fst kvs)" by auto
  then have "k \<notin> set (map fst (cache ?c))" unfolding keys by (auto dest: in_set_dropD)
  then have nohas: "\<not> map_has k (cache ?c)"
    by (simp add: map_has_def map_of_eq_None_iff)
  from snoc.prems have dist: "distinct (map fst (cache ?c))"
    unfolding keys by (simp add: distinct_drop)
  have "length (map fst (cache ?c)) = length (drop (length kvs - n) (map fst kvs))"
    using keys by simp
  then have len: "length (cache ?c) = min (length kvs) n" by auto
  have run: "ttl_run (map (\<lambda>(k, v, t). Set k v t) (kvs @ [kv])) (new_TTLCache n T)
             = ttl_cache_set k v t ?c"
    by (simp add: ttl_run_def kv)
  have sz': "maxSize (ttl_cache_set k v t ?c) = n"
    using sz by (simp add: ttl_cache_set_def Let_def)
  show ?case
  proof (cases "n \<le> length kvs")
    case True
    with len sz have "maxSize ?c \<le> length (cache ?c)" by simp
    from ttl_cache_set_evicts_head[OF dist nohas this]
    have "map fst (cache (ttl_cache_set k v t ?c)) = tl (map fst (cache ?c)) @ [k]"
      by (simp add: map_tl)
    also have "\<dots> = drop (Suc (length kvs - n)) (map fst kvs) @ [k]"
      unfolding keys by (simp add: drop_Suc tl_drop)
    also have "\<dots> = drop (length (kvs @ [kv]) - n) (map fst (kvs @ [kv]))"
      using True \<open>0 < n\<close> by (simp add: kv Suc_diff_le)
    finally show ?thesis using run sz' by simp
  next
    case False
    with len sz have "length (cache ?c) < maxSize ?c" by simp
    from ttl_cache_set_below_capacity[OF nohas this]
    have "map fst (cache (ttl_cache_set k v t ?c)) = map fst (cache ?c) @ [k]" by simp
    with False keys run sz' show ?thesis by (simp add: kv)
  qed
qed

text \<open>
  Claim C2. Every cache is to evict, on a \<open>set\<close> of a new key at capacity, the entry
  least recently touched by a \<open>get\<close> or a \<open>set\<close>. The background cache with capacity 2
  receives \<open>set(A, 1)\<close>, \<open>set(B, 2)\<close>, \<open>set(A, 3)\<close>, \<open>set(C, 4)\<close>: the second \<open>set\<close> of
  \<open>A\<close> leaves \<open>A\<close> at the head, and the \<open>set\<close> of \<open>C\<close> evicts \<open>A\<close>, the entry just written,
  and keeps \<open>B\<close>. The content script's cache, on the same calls, evicts \<open>B\<close> and keeps \<open>A\<close>.
\<close>

theorem ttl_cache_set_again_then_evicted:
  "map fst (cache (ttl_run [Set ''A'' (1::nat) 0, Set ''B'' 2 1, Set ''A'' 3 2, Set ''C'' 4 3]
                     (new_TTLCache 2 1000))) = [''B'', ''C'']
   \<and> map fst (cache (cache_run [CSet ''A'' (1::nat) 0, CSet ''B'' 2 1, CSet ''A'' 3 2, CSet ''C'' 4 3]
                     (new_PerformanceCache 2))) = [''A'', ''C'']"
  by (simp add: ttl_run_def cache_run_def new_TTLCache_def new_PerformanceCache_def
      ttl_cache_set_def cache_set_def map_has_def map_delete_def map_delete_first_def
      map_first_key_def)

section \<open>Expiry in the background cache\<close>







section \<open>No expiry in the content script's cache\<close>

lemma cache_step_keeps_value:
  "\<not> csets_key k op \<Longrightarrow> map_of (cache (cache_step op c)) k = Some x
   \<Longrightarrow> map_of (cache c) k = Some x"
  by (cases op)
     (auto simp: cache_get_def cache_set_def cache_clear_def
        map_of_map_set map_of_map_delete Let_def
        dest: map_of_map_delete_first split: option.splits if_splits)

lemma cache_run_keeps_value:
  "\<not> list_ex (csets_key k) ops \<Longrightarrow> map_of (cache (cache_run ops c)) k = Some x
   \<Longrightarrow> map_of (cache c) k = Some x"
  unfolding cache_run_def
  by (induction ops arbitrary: c) (auto dest: cache_step_keeps_value)

lemma cache_set_value: "map_of (cache (cache_set k v c)) k = Some v"
  by (simp add: cache_set_def Let_def map_of_map_set)

text \<open>
  Claim C10. The content script's cache has no clock: its entries carry no expiry and
  its operations read no time. A key \<open>k\<close> is set to \<open>v\<close> at time \<open>t\<close>; any calls follow, at
  any times, that do not set \<open>k\<close> again; as long as the entry of \<open>k\<close> is still in the store
  (neither evicted at capacity nor removed by \<open>clear\<close>), a \<open>get\<close> of \<open>k\<close> at any time \<open>now\<close>
  returns \<open>v\<close>, adds one to the hit counter, leaves the miss counter, and keeps the value
  stored.
\<close>

theorem cache_get_no_expiry:
  assumes "\<not> list_ex (csets_key k) ops"
    and "c' = cache_run ops (cache_step (CSet k v t) c)"
    and "map_has k (cache c')"
  shows "fst (cache_get k c') = Some v
       \<and> hitCount (cache_step (CGet k now) c') = hitCount c' + 1
       \<and> missCount (cache_step (CGet k now) c') = missCount c'
       \<and> map_of (cache (cache_step (CGet k now) c')) k = Some v"
proof -
  from assms(3) obtain x where x: "map_of (cache c') k = Some x"
    by (auto simp: map_has_def)
  with assms(1,2) have "map_of (cache (cache_set k v c)) k = Some x"
    by (auto dest: cache_run_keeps_value)
  then have "x = v" by (simp add: cache_set_value)
  with x show ?thesis
    by (simp add: cache_get_def map_of_map_set)
qed

theorem cache_get_no_expiry_witness:
  "\<not> list_ex (csets_key ''r1'') [CSet ''r2'' (45::nat) 10, CGet ''r1'' 20, CGet ''r3'' 30]
   \<and> map_has ''r1'' (cache (cache_run [CSet ''r2'' (45::nat) 10, CGet ''r1'' 20, CGet ''r3'' 30]
         (cache_step (CSet ''r1'' 42 0) (new_PerformanceCache 2))))
   \<and> fst (cache_get ''r1'' (cache_run [CSet ''r2'' (45::nat) 10, CGet ''r1'' 20, CGet ''r3'' 30]
         (cache_step (CSet ''r1'' 42 0) (new_PerformanceCache 2)))) = Some 42
   \<and> hitCount (cache_step (CGet ''r1'' 86400000)
         (cache_run [CSet ''r2'' (45::nat) 10, CGet ''r1'' 20, CGet ''r3'' 30]
            (cache_step (CSet ''r1'' 42 0) (new_PerformanceCache 2)))) = 2"
  using cache_get_no_expiry [where k = "''r1''"
      and ops = "[CSet ''r2'' (45::nat) 10, CGet ''r1'' 20, CGet ''r3'' 30]"
      and c' = "cache_run [CSet ''r2'' (45::nat) 10, CGet ''r1'' 20, CGet ''r3'' 30]
         (cache_step (CSet ''r1'' 42 0) (new_PerformanceCache 2))"
      and v = 42 and t = 0 and c = "new_PerformanceCache 2" and now = 86400000]
  by (simp add: cache_run_def new_PerformanceCache_def cache_set_def cache_get_def
      map_has_def map_delete_def map_delete_first_def map_first_key_def)

section \<open>Properties of \<open>processAndCompare\<close>\<close>

text \<open>The chunked loop visits every product identifier once, in order.\<close>

lemma compareChunks_fold:
  "compareChunks bs cs ms productIds i res = fold (compareOne bs cs ms) (drop i productIds) res"
proof (induction bs cs ms productIds i res rule: compareChunks.induct)
  case (1 bs cs ms productIds i res)
  show ?case
  proof (cases "i < length productIds")
    case True
    have "drop i productIds = take chunkSize (drop i productIds) @ drop (i + chunkSize) productIds"
      by (metis append_take_drop_id drop_drop add.commute)
    then have "fold (compareOne bs cs ms) (drop i productIds) res =
               fold (compareOne bs cs ms) (drop (i + chunkSize) productIds)
                 (fold (compareOne bs cs ms) (take chunkSize (drop i productIds)) res)"
      by (metis fold_append comp_apply)
    with True "1.IH" show ?thesis by (simp del: compareChunks.simps add: compareChunks.simps[of bs cs ms productIds i res])
  next
    case False
    then show ?thesis by simp
  qed
qed

lemma map_of_compareOne:
  "map_of (compareOne bs cs ms baseId res) k =
     (if k = baseId \<and> recordFor bs cs ms baseId \<noteq> None then recordFor bs cs ms baseId
      else map_of res k)"
  by (auto simp: compareOne_def recordFor_def map_of_map_set split: option.splits)

lemma map_of_fold_compareOne:
  "map_of (fold (compareOne bs cs ms) ids res) k =
     (if k \<in> set ids \<and> recordFor bs cs ms k \<noteq> None then recordFor bs cs ms k
      else map_of res k)"
  by (induction ids arbitrary: res) (auto simp: map_of_compareOne)

lemma map_of_in_keys: "map_of bs k = Some v \<Longrightarrow> k \<in> set (map fst bs)"
  by (metis map_of_eq_None_iff option.distinct(1) set_map)

lemma recordFor_keys: "recordFor bs cs ms k \<noteq> None \<Longrightarrow> k \<in> set (map fst bs)"
  by (auto simp: recordFor_def dest: map_of_in_keys split: option.splits if_splits)

lemma map_of_compare_all:
  "map_of (compareChunks bs cs ms (map fst bs) 0 []) k = recordFor bs cs ms k"
proof (cases "recordFor bs cs ms k")
  case None
  then show ?thesis
    by (simp add: compareChunks_fold map_of_fold_compareOne del: compareChunks.simps)
next
  case (Some r)
  then have "k \<in> set (map fst bs)" using recordFor_keys[of bs cs ms k] by simp
  with Some show ?thesis
    by (simp add: compareChunks_fold map_of_fold_compareOne del: compareChunks.simps)
qed

lemma map_of_processAndCompare:
  "map_of (processAndCompare sf tf sp ms) k =
     recordFor (if sp = js ''snappfood'' then sf else tf)
               (if sp = js ''snappfood'' then tf else sf) ms k"
  by (simp add: processAndCompare_def Let_def map_of_compare_all del: compareChunks.simps)

lemma percentDiffOf_20_100: "percentDiffOf 20 100 = 20"
  by code_simp

text \<open>
  The percentage is the one of the doubles: for a base price of 200 and a difference of
  29 the quotient \<open>0.145\<close> is not a double, the product is \<open>14.499999999999998\<close>, and
  \<open>Math.round\<close> gives 14 where the exact \<open>14.5\<close> would round to 15.
\<close>

lemma percentDiffOf_29_200: "percentDiffOf 29 200 = 14"
  by code_simp

text \<open>
  Claim C1, as stated, fails where the mapping gives the identifier 0. SnappFood has
  product 1 at price 100, TapsiFood has a product 0 at price 80, and the mapping sends
  1 to 0: the counterpart is in the counterpart collection and the base price is
  positive, yet \<open>if (counterpartId)\<close> is false for 0 and no record is produced.
\<close>

theorem processAndCompare_zero_id_counterexample:
  "map_of [(1, 0)] (1::int) = Some (0::int)
   \<and> map_of [(0::int, \<lparr>pid = 0, name = [], price = 80, originalPrice = 80\<rparr>)] 0
       = Some \<lparr>pid = 0, name = [], price = 80, originalPrice = 80\<rparr>
   \<and> 0 < price \<lparr>pid = 1, name = [], price = 100, originalPrice = 100\<rparr>
   \<and> map_of (processAndCompare
         [(1, \<lparr>pid = 1, name = [], price = 100, originalPrice = 100\<rparr>)]
         [(0, \<lparr>pid = 0, name = [], price = 80, originalPrice = 80\<rparr>)]
         (js ''snappfood'') [(1, 0)]) 1 = None"
  by (simp add: map_of_processAndCompare recordFor_def)

text \<open>
  Claim C1, amended. \<open>processAndCompare\<close> stores a record under a base identifier exactly
  when the base collection has the product, the mapping gives it a counterpart
  identifier other than 0, the counterpart collection has that product, and the base
  price is positive. In that record the two products are those, \<open>priceDiff\<close> is the base
  price minus the counterpart price, \<open>percentDiff\<close> is
  \<open>Math.round(|priceDiff| / basePrice * 100)\<close> in the arithmetic of JavaScript numbers,
  and \<open>isCheaper\<close>, \<open>isMoreExpensive\<close>, \<open>isSamePrice\<close> hold exactly when \<open>priceDiff\<close> is
  positive, negative, zero: exactly one of the three holds.
\<close>

theorem processAndCompare_record:
  fixes sf tf :: "product js_object"
  defines "base sp \<equiv> (if sp = js ''snappfood'' then sf else tf)"
    and "counterpart sp \<equiv> (if sp = js ''snappfood'' then tf else sf)"
  shows "((\<exists>r. map_of (processAndCompare sf tf sp ms) baseId = Some r) \<longleftrightarrow>
          (\<exists>bp cid cp. map_of (base sp) baseId = Some bp \<and> map_of ms baseId = Some cid
              \<and> cid \<noteq> 0 \<and> map_of (counterpart sp) cid = Some cp \<and> 0 < price bp))
       \<and> (\<forall>r. map_of (processAndCompare sf tf sp ms) baseId = Some r \<longrightarrow>
            map_of (base sp) baseId = Some (baseProduct r)
          \<and> (\<exists>cid. map_of ms baseId = Some cid
                \<and> map_of (counterpart sp) cid = Some (counterpartProduct r))
          \<and> priceDiff r = price (baseProduct r) - price (counterpartProduct r)
          \<and> percentDiff r =
              Math_round (fl (fl (of_int \<bar>priceDiff r\<bar> / of_int (price (baseProduct r))) * 100))
          \<and> (isCheaper r \<longleftrightarrow> 0 < priceDiff r)
          \<and> (isMoreExpensive r \<longleftrightarrow> priceDiff r < 0)
          \<and> (isSamePrice r \<longleftrightarrow> priceDiff r = 0)
          \<and> (isCheaper r \<and> \<not> isMoreExpensive r \<and> \<not> isSamePrice r
             \<or> \<not> isCheaper r \<and> isMoreExpensive r \<and> \<not> isSamePrice r
             \<or> \<not> isCheaper r \<and> \<not> isMoreExpensive r \<and> isSamePrice r))"
  unfolding map_of_processAndCompare base_def counterpart_def
  by (auto simp: recordFor_def comparisonRecord_def percentDiffOf_def split: option.splits if_splits)

theorem processAndCompare_record_witness:
  "map_of (processAndCompare example_sf_products example_tf_products (js ''snappfood'') [(1, 9)]) 1
     = Some \<lparr>baseProduct = \<lparr>pid = 1, name = [], price = 100, originalPrice = 100\<rparr>,
              counterpartProduct = \<lparr>pid = 9, name = [], price = 80, originalPrice = 80\<rparr>,
              priceDiff = 20, percentDiff = 20, isCheaper = True,
              isMoreExpensive = False, isSamePrice = False\<rparr>
   \<and> map_of (processAndCompare
         [(1, \<lparr>pid = 1, name = [], price = 0, originalPrice = 100\<rparr>)]
         example_tf_products (js ''snappfood'') [(1, 9)]) 1 = None"
  using processAndCompare_record [of example_sf_products example_tf_products
          "js ''snappfood''" "[(1, 9)]" 1]
    processAndCompare_record [of "[(1, \<lparr>pid = 1, name = [], price = 0, originalPrice = 100\<rparr>)]"
          example_tf_products "js ''snappfood''" "[(1, 9)]" 1]
  by (simp add: map_of_processAndCompare recordFor_def comparisonRecord_def
        example_sf_products_def example_tf_products_def percentDiffOf_20_100)

section \<open>Properties of the \<open>fetchPrices\<close> handler\<close>

text \<open>
  Claim C4. Once the mapping server has named the vendor, a \<open>null\<close> from either product
  fetch makes the answer a failure without data; a successful answer exists only when
  the vendor was found and both fetches returned products, and its data is the
  comparison of exactly those two collections; no failure carries data.
\<close>

theorem fetchPrices_all_or_nothing:
  "(\<forall>r d vi. vendorLookup net req = Some r \<and> api_data r = Some d \<and> vendor_info d = Some vi
        \<and> (fetchSnappfoodData net (sf_code vi) = None \<or> fetchTapsifoodData net (tf_code vi) = None)
      \<longrightarrow> \<not> response_success (fetchPrices net req) \<and> response_data (fetchPrices net req) = None)
   \<and> (response_success (fetchPrices net req) \<longrightarrow>
        (\<exists>r d vi ms sfProducts tfProducts.
            vendorLookup net req = Some r \<and> api_data r = Some d \<and> vendor_info d = Some vi
          \<and> item_mappings d = Some ms
          \<and> fetchSnappfoodData net (sf_code vi) = Some sfProducts
          \<and> fetchTapsifoodData net (tf_code vi) = Some tfProducts
          \<and> response_data (fetchPrices net req) =
              Some (processAndCompare sfProducts tfProducts (the (sourcePlatform req)) ms)))
   \<and> (\<not> response_success (fetchPrices net req) \<longrightarrow> response_data (fetchPrices net req) = None)"
proof (intro conjI allI impI)
  fix r d vi
  assume h: "vendorLookup net req = Some r \<and> api_data r = Some d \<and> vendor_info d = Some vi
        \<and> (fetchSnappfoodData net (sf_code vi) = None \<or> fetchTapsifoodData net (tf_code vi) = None)"
  then show "\<not> response_success (fetchPrices net req)"
    by (auto simp: fetchPrices_def split: option.splits)
  from h show "response_data (fetchPrices net req) = None"
    by (auto simp: fetchPrices_def split: option.splits)
next
  assume "response_success (fetchPrices net req)"
  then show "\<exists>r d vi ms sfProducts tfProducts.
            vendorLookup net req = Some r \<and> api_data r = Some d \<and> vendor_info d = Some vi
          \<and> item_mappings d = Some ms
          \<and> fetchSnappfoodData net (sf_code vi) = Some sfProducts
          \<and> fetchTapsifoodData net (tf_code vi) = Some tfProducts
          \<and> response_data (fetchPrices net req) =
              Some (processAndCompare sfProducts tfProducts (the (sourcePlatform req)) ms)"
    by (auto simp: fetchPrices_def split: option.splits if_splits)
next
  assume "\<not> response_success (fetchPrices net req)"
  then show "response_data (fetchPrices net req) = None"
    by (cases "fetchPrices net req") auto
qed

theorem fetchPrices_all_or_nothing_witness:
  "vendorLookup network_sf_down example_request = Some example_api_result
   \<and> api_data example_api_result
       = Some \<lparr>vendor_info = Some example_vendor, item_mappings = Some [(1, 9)]\<rparr>
   \<and> fetchSnappfoodData network_sf_down (sf_code example_vendor) = None
   \<and> fetchPrices network_sf_down example_request = Failed (ProductFetchFailed True False)
   \<and> response_success (fetchPrices network_up example_request)
   \<and> response_data (fetchPrices network_up example_request)
       = Some (processAndCompare example_sf_products example_tf_products (js ''snappfood'')
                 [(1, 9)])"
  using fetchPrices_all_or_nothing [of network_sf_down example_request]
    fetchPrices_all_or_nothing [of network_up example_request]
  by (simp add: fetchPrices_def vendorLookup_def truthy_def network_sf_down_def network_up_def
        example_request_def example_api_result_def example_vendor_def js_def)

section \<open>Properties of vendor highlighting\<close>
















section \<open>Properties of the search\<close>

subsection \<open>Scores\<close>

lemma split_ws_word: "\<forall>c \<in> set s. \<not> is_whitespace c \<Longrightarrow> split_ws s = [s]"
proof -
  assume "\<forall>c \<in> set s. \<not> is_whitespace c"
  then have d: "dropWhile (\<lambda>c. \<not> is_whitespace c) s = []" by simp
  show ?thesis by (simp add: split_ws.simps[of s] d del: split_ws.simps)
qed

lemma vendorText_burger: "vendorText burger_vendor = js ''burger burger house r1 t2''"
  by (simp add: vendorText_def burger_vendor_def vendor_hit_def or_empty_def toLowerCase_def js_def)

lemma vendorText_kebab: "vendorText kebab_vendor = js ''kebab kebab club k3 k4''"
  by (simp add: vendorText_def kebab_vendor_def vendor_hit_def or_empty_def toLowerCase_def js_def)

lemma similarity_pizza_burger:
  "calculateSimpleSimilarity (js ''pizza'') (js ''burger burger house r1 t2'') = 0"
  by (simp add: calculateSimpleSimilarity_def normalizeText_def trim_def toLowerCase_def
      canonical_letter_def is_whitespace_def js_def startsWith_def split_ws_word
      del: split_ws.simps)

lemma similarity_pizza_kebab:
  "calculateSimpleSimilarity (js ''pizza'') (js ''kebab kebab club k3 k4'') = 0"
  by (simp add: calculateSimpleSimilarity_def normalizeText_def trim_def toLowerCase_def
      canonical_letter_def is_whitespace_def js_def startsWith_def split_ws_word
      del: split_ws.simps)

lemma score_pizza_burger:
  "searchScoreOf (js ''pizza'') [js ''pizza''] (js ''burger burger house r1 t2'') = 10"
  by (simp add: searchScoreOf_def similarity_pizza_burger) (simp add: js_def startsWith_def)

lemma score_pizza_kebab:
  "searchScoreOf (js ''pizza'') [js ''pizza''] (js ''kebab kebab club k3 k4'') = 10"
  by (simp add: searchScoreOf_def similarity_pizza_kebab) (simp add: js_def startsWith_def)

lemma lowerQuery_pizza: "trim (toLowerCase (js ''pizza'')) = js ''pizza''"
  by (simp add: trim_def toLowerCase_def js_def is_whitespace_def)

lemma queryWords_pizza: "split_ws (js ''pizza'') = [js ''pizza'']"
  by (rule split_ws_word) (simp add: js_def is_whitespace_def)

lemma smart_search_pizza:
  "cells (snd (performSmartSearch vendorText (js ''pizza'') (vendorList list_page)
                 (vendorArrays list_page)))
         (fst (performSmartSearch vendorText (js ''pizza'') (vendorList list_page)
                 (vendorArrays list_page)))
   = [kebab_vendor\<lparr>searchScore := Some 10,
                    searchableText := Some (js ''kebab kebab club k3 k4'')\<rparr>,
      burger_vendor\<lparr>searchScore := Some 10,
                     searchableText := Some (js ''burger burger house r1 t2'')\<rparr>]"
  apply (simp add: performSmartSearch_def Let_def lowerQuery_pizza queryWords_pizza list_page_def
      alloc_def scoreHit_def vendorText_burger vendorText_kebab score_pizza_burger
      score_pizza_kebab score_value_def js_sort_def del: split_ws.simps)
  apply (simp add: js_def)
  done

text \<open>
  The fallback of the scoring does normalise both sides: texts that differ only in the
  variant letters get the same similarity.
\<close>

lemma calculateSimpleSimilarity_variants:
  "map canonical_letter t1 = map canonical_letter t2 \<Longrightarrow>
   calculateSimpleSimilarity q t1 = calculateSimpleSimilarity q t2"
  by (simp add: calculateSimpleSimilarity_def normalizeText_def)

text \<open>
  Claim C6. A record whose text shares no character with the query is to score at most
  5 and to be absent from the results. The vendor \<open>Burger\<close> / \<open>Burger House\<close> with the codes
  \<open>r1\<close> and \<open>t2\<close> has the searchable text \<open>burger burger house r1 t2\<close>, which has no
  character of the query \<open>pizza\<close>; the text is shorter than 50 characters, so the record
  gets the 10 points of the short-text bonus, passes the threshold, and is in the
  results of \<open>performSmartSearch\<close>.
\<close>

theorem short_text_bonus_passes_threshold:
  "set (js ''pizza'') \<inter> set (vendorText burger_vendor) = {}
   \<and> searchScoreOf (js ''pizza'') [js ''pizza''] (vendorText burger_vendor) = 10
   \<and> burger_vendor\<lparr>searchScore := Some 10, searchableText := Some (vendorText burger_vendor)\<rparr>
       \<in> set (cells (snd (performSmartSearch vendorText (js ''pizza'') (vendorList list_page)
                              (vendorArrays list_page)))
                     (fst (performSmartSearch vendorText (js ''pizza'') (vendorList list_page)
                              (vendorArrays list_page))))"
  by (simp add: smart_search_pizza vendorText_burger score_pizza_burger) (simp add: js_def)

text \<open>
  Claim C7. Two texts that differ only in a variant letter are to get the same score.
  The query is the three letters ain, lam, Persian yeh; the first text is the same
  word and the second is the word written with the Arabic yeh. Both normalise to the
  same word, yet the substring tests of \<open>performSmartSearch\<close> compare the texts as they
  are: the first text contains the query (1000, then 100 and 50 for the word, 10 for
  the short text), the second only reaches the fallback (80, and 10).
\<close>

theorem variant_letter_changes_score:
  "map canonical_letter [1593, 1604, 1610] = map canonical_letter [1593, 1604, 1740]
   \<and> searchScoreOf [1593, 1604, 1740] [[1593, 1604, 1740]] [1593, 1604, 1740] = 1160
   \<and> searchScoreOf [1593, 1604, 1740] [[1593, 1604, 1740]] [1593, 1604, 1610] = 90"
  by (simp add: searchScoreOf_def calculateSimpleSimilarity_def normalizeText_def trim_def
      toLowerCase_def canonical_letter_def is_whitespace_def startsWith_def split_ws_word
      del: split_ws.simps)

subsection \<open>The search cache\<close>

lemmas search_eval = performAdvancedSearch_def cache_get_def cache_set_def cacheKeyOf_def
  searchVendors_def searchProducts_def applyCategoryFilters_def applySortingVendors_def
  applySortingProducts_def limitResults_def arr_sort_def arr_filter_def arr_slice_def alloc_def
  js_sort_def new_PerformanceCache_def map_has_def map_delete_def map_delete_first_def
  map_first_key_def js_def Let_def MAX_SEARCH_RESULTS_def MAX_VISIBLE_RESULTS_def

lemma performAdvancedSearch_caches:
  "\<exists>r. searchResults (performAdvancedSearch lc q s) = Some r
      \<and> map_of (cache (searchCache (performAdvancedSearch lc q s)))
           (cacheKeyOf q (currentCategory s) (0 < length (comparisonData s))) = Some r"
proof (cases "map_of (cache (searchCache s))
                (cacheKeyOf q (currentCategory s) (0 < length (comparisonData s)))")
  case None
  then show ?thesis
    by (simp add: performAdvancedSearch_def cache_get_def Let_def split_beta cache_set_value)
next
  case (Some r)
  then show ?thesis
    by (simp add: performAdvancedSearch_def cache_get_def Let_def map_of_map_set)
qed

lemma performAdvancedSearch_frame:
  "currentCategory (performAdvancedSearch lc q s) = currentCategory s
   \<and> comparisonData (performAdvancedSearch lc q s) = comparisonData s
   \<and> vendorList (performAdvancedSearch lc q s) = vendorList s"
  by (simp add: performAdvancedSearch_def Let_def split_beta split: option.splits)

lemma performAdvancedSearch_hit:
  assumes "map_of (cache (searchCache s))
             (cacheKeyOf q (currentCategory s) (0 < length (comparisonData s))) = Some r"
  shows "searchResults (performAdvancedSearch lc q s) = Some r
       \<and> filteredResults (performAdvancedSearch lc q s) = Some r
       \<and> vendorArrays (performAdvancedSearch lc q s) = vendorArrays s
       \<and> productArrays (performAdvancedSearch lc q s) = productArrays s
       \<and> hitCount (searchCache (performAdvancedSearch lc q s)) = hitCount (searchCache s) + 1
       \<and> missCount (searchCache (performAdvancedSearch lc q s)) = missCount (searchCache s)"
  using assms by (simp add: performAdvancedSearch_def cache_get_def Let_def)

text \<open>
  Claim C8. The cache key is made of the query, the category and \<open>hasProductData\<close>. A
  search is run, then the sort order and the maximum price are changed to anything,
  and the same query is searched again: the second search is a cache hit, it returns
  the result list of the first, and the arrays are what they were; the new sort order
  and the new maximum price had no effect.
\<close>

theorem cached_search_ignores_sort_and_maxPrice:
  assumes "sa = performAdvancedSearch lc query s"
    and "sb = performAdvancedSearch lc query (sa\<lparr>currentSort := sort', maxPrice := maxPrice'\<rparr>)"
  shows "searchResults sb = searchResults sa
       \<and> filteredResults sb = searchResults sa
       \<and> vendorArrays sb = vendorArrays sa
       \<and> productArrays sb = productArrays sa
       \<and> products_of sb (searchResults sb) = products_of sa (searchResults sa)
       \<and> vendors_of sb (searchResults sb) = vendors_of sa (searchResults sa)
       \<and> hitCount (searchCache sb) = hitCount (searchCache sa) + 1
       \<and> missCount (searchCache sb) = missCount (searchCache sa)"
proof -
  let ?sa' = "sa\<lparr>currentSort := sort', maxPrice := maxPrice'\<rparr>"
  from performAdvancedSearch_caches[of lc query s] assms(1)
  obtain r where r: "searchResults sa = Some r"
    "map_of (cache (searchCache sa))
       (cacheKeyOf query (currentCategory s) (0 < length (comparisonData s))) = Some r"
    by auto
  have "currentCategory ?sa' = currentCategory s" "comparisonData ?sa' = comparisonData s"
    using performAdvancedSearch_frame[of lc query s] assms(1) by simp_all
  with r(2) have "map_of (cache (searchCache ?sa'))
       (cacheKeyOf query (currentCategory ?sa') (0 < length (comparisonData ?sa'))) = Some r"
    by simp
  from performAdvancedSearch_hit[OF this, of lc] assms(2) r(1)
  show ?thesis by (cases r) simp_all
qed

theorem cached_search_ignores_sort_and_maxPrice_witness:
  "map (\<lambda>h. price (baseProduct (item h)))
     (products_of (performAdvancedSearch code_unit_compare [] menu_page)
        (searchResults (performAdvancedSearch code_unit_compare [] menu_page))) = [50, 100]
   \<and> map (\<lambda>h. price (baseProduct (item h)))
     (products_of
        (performAdvancedSearch code_unit_compare []
           ((performAdvancedSearch code_unit_compare [] menu_page)
              \<lparr>currentSort := js ''price-desc'', maxPrice := Some 60\<rparr>))
        (searchResults
           (performAdvancedSearch code_unit_compare []
              ((performAdvancedSearch code_unit_compare [] menu_page)
                 \<lparr>currentSort := js ''price-desc'', maxPrice := Some 60\<rparr>)))) = [50, 100]
   \<and> map (\<lambda>h. price (baseProduct (item h)))
     (products_of
        (performAdvancedSearch code_unit_compare []
           (menu_page\<lparr>currentSort := js ''price-desc'', maxPrice := Some 60\<rparr>))
        (searchResults
           (performAdvancedSearch code_unit_compare []
              (menu_page\<lparr>currentSort := js ''price-desc'', maxPrice := Some 60\<rparr>))))
       = [100, 50]"
  using cached_search_ignores_sort_and_maxPrice
    [where s = menu_page and lc = code_unit_compare and query = "[]"
       and sort' = "js ''price-desc''" and maxPrice' = "Some 60"
       and sa = "performAdvancedSearch code_unit_compare [] menu_page"
       and sb = "performAdvancedSearch code_unit_compare []
           ((performAdvancedSearch code_unit_compare [] menu_page)
              \<lparr>currentSort := js ''price-desc'', maxPrice := Some 60\<rparr>)"]
  by (simp add: search_eval menu_page_def example_comparison_def)

subsection \<open>Sorting in place\<close>

lemma arr_sort_in_place:
  "fst (arr_sort cmp a st) = a
   \<and> cells (snd (arr_sort cmp a st)) a = js_sort cmp (cells st a)
   \<and> (\<forall>b. b \<noteq> a \<longrightarrow> cells (snd (arr_sort cmp a st)) b = cells st b)
   \<and> nextAddr (snd (arr_sort cmp a st)) = nextAddr st"
  by (simp add: arr_sort_def)











end
